theory Spec2Isabelle
  imports Main "HOL-Library.AList" "HOL-Library.Sublist"
begin

section \<open>Multi-methods dispatched on a package's spec (lib/spack/spack/multimethod.py)\<close>

text \<open>
  The module is embedded as follows.
  \<^item> A Python function object is a record of its \<^verbatim>\<open>__name__\<close> and its behaviour: the
    outcome (returned value or raised exception, an opaque \<open>'r\<close>) as a function of the
    receiver, the positional arguments and the keyword arguments.
  \<^item> A receiver is an object with a \<^verbatim>\<open>spec\<close> attribute; \<^verbatim>\<open>type(package_self).__name__\<close>
    is the field \<open>cls_name\<close>.
  \<^item> Specs come from \<^verbatim>\<open>spack.spec\<close>, which is outside this module: the type of specs
    is a type variable, and \<^verbatim>\<open>s.satisfies(spec)\<close> and \<^verbatim>\<open>str(s)\<close> are parameters
    \<open>satisfies\<close> and \<open>str\<close> of the functions that use them.
  \<^item> A dict is an association list in insertion order; \<^verbatim>\<open>d[k] = v\<close> is
    \<^const>\<open>AList.update\<close>, which replaces the value of a key that is present and appends
    a new key otherwise.
  \<^item> An exception raised by the module is a value of type \<open>error\<close>, returned as \<open>Inl\<close>.
\<close>

subsection \<open>Data\<close>

record ('p, 'a, 'r) pyfunction =
  method_name :: string
  body :: "'p \<Rightarrow> 'a list \<Rightarrow> (string \<times> 'a) list \<Rightarrow> 'r"

record 'spec package =
  cls_name :: string
  spec :: 'spec

text \<open>
  An instance of \<^verbatim>\<open>SpecMultiMethod\<close>. The field \<open>wrapper_name\<close> is the instance
  attribute \<^verbatim>\<open>__name__\<close>: \<open>None\<close> as long as \<^verbatim>\<open>hasattr(self, '__name__')\<close> is false
  (an instance does not inherit \<^verbatim>\<open>__name__\<close> from its class), \<open>Some n\<close> once
  \<^verbatim>\<open>functools.update_wrapper\<close> has copied it from a function.
\<close>

record ('spec, 'p, 'a, 'r) SpecMultiMethod =
  method_map :: "('spec \<times> ('p, 'a, 'r) pyfunction) list"
  default_method :: "('p, 'a, 'r) pyfunction option"
  wrapper_name :: "string option"

datatype error =
    NoSuchMethodError string
  | AmbiguousMethodError string
  | AssertionError
  | AttributeError string
  | KeyError

subsection \<open>Error messages\<close>

text \<open>\<^verbatim>\<open>sep.join(xs)\<close>\<close>

fun join :: "string \<Rightarrow> string list \<Rightarrow> string" where
  "join sep [] = []"
| "join sep [x] = x"
| "join sep (x # y # ys) = x @ sep @ join sep (y # ys)"

text \<open>
  \<^verbatim>\<open>"Package %s does not support %s called with %s.  Options are: %s"
     % (cls.__name__, method_name, spec, ", ".join(str(s) for s in possible_specs))\<close>
\<close>

definition no_such_method_message ::
  "('spec \<Rightarrow> string) \<Rightarrow> string \<Rightarrow> string \<Rightarrow> 'spec \<Rightarrow> 'spec list \<Rightarrow> string" where
  "no_such_method_message str cls meth sp possible_specs =
     ''Package '' @ cls @ '' does not support '' @ meth @ '' called with '' @ str sp
       @ ''.  Options are: '' @ join '', '' (map str possible_specs)"

text \<open>
  \<^verbatim>\<open>"Package %s has multiple versions of %s that match %s: %s"
     % (cls.__name__, method_name, spec, ",".join(str(s) for s in matching_specs))\<close>
\<close>

definition ambiguous_method_message ::
  "('spec \<Rightarrow> string) \<Rightarrow> string \<Rightarrow> string \<Rightarrow> 'spec \<Rightarrow> 'spec list \<Rightarrow> string" where
  "ambiguous_method_message str cls meth sp matching =
     ''Package '' @ cls @ '' has multiple versions of '' @ meth @ '' that match '' @ str sp
       @ '': '' @ join '','' (map str matching)"

text \<open>Reading \<^verbatim>\<open>self.__name__\<close> raises \<^verbatim>\<open>AttributeError\<close> when the attribute is not set.\<close>

definition getattr_name :: "('spec, 'p, 'a, 'r) SpecMultiMethod \<Rightarrow> error + string" where
  "getattr_name self =
     (case wrapper_name self of
        None \<Rightarrow> Inl (AttributeError ''__name__'')
      | Some n \<Rightarrow> Inr n)"

subsection \<open>SpecMultiMethod\<close>

text \<open>
  \<^verbatim>\<open>functools.update_wrapper(self, wrapped)\<close> copies \<^verbatim>\<open>__name__\<close> from the function to
  the table. It also copies \<^verbatim>\<open>__module__\<close> and \<^verbatim>\<open>__doc__\<close>, which nothing in the module
  reads, and the attributes set on the function object, of which a function written with
  \<^verbatim>\<open>def\<close> has none; these are left out.
\<close>

definition update_wrapper ::
  "('spec, 'p, 'a, 'r) SpecMultiMethod \<Rightarrow> ('p, 'a, 'r) pyfunction
     \<Rightarrow> ('spec, 'p, 'a, 'r) SpecMultiMethod" where
  "update_wrapper self wrapped = self\<lparr>wrapper_name := Some (method_name wrapped)\<rparr>"

text \<open>\<^verbatim>\<open>SpecMultiMethod.__init__(self, default=None)\<close>\<close>

definition SpecMultiMethod_init ::
  "('p, 'a, 'r) pyfunction option \<Rightarrow> ('spec, 'p, 'a, 'r) SpecMultiMethod" where
  "SpecMultiMethod_init default' =
     (let self = \<lparr>method_map = [], default_method = default', wrapper_name = None\<rparr>
      in case default' of
           None \<Rightarrow> self
         | Some d \<Rightarrow> update_wrapper self d)"

text \<open>
  \<^verbatim>\<open>SpecMultiMethod.register(self, spec, method)\<close>: the entry is stored before the names
  are compared, so the table is returned updated also when the assertion fails.
\<close>

definition register ::
  "('spec, 'p, 'a, 'r) SpecMultiMethod \<Rightarrow> 'spec \<Rightarrow> ('p, 'a, 'r) pyfunction
     \<Rightarrow> (error + unit) \<times> ('spec, 'p, 'a, 'r) SpecMultiMethod" where
  "register self sp method =
     (let self1 = self\<lparr>method_map := AList.update sp method (method_map self)\<rparr>
      in case wrapper_name self1 of
           None \<Rightarrow> (Inr (), update_wrapper self1 method)
         | Some n \<Rightarrow>
             if n = method_name method then (Inr (), self1)
             else (Inl AssertionError, self1))"

text \<open>
  \<^verbatim>\<open>SpecMultiMethod.__call__\<close>, first part: the choice of \<^verbatim>\<open>method\<close>, or the exception
  raised instead.
\<close>

definition matching_specs ::
  "('spec \<Rightarrow> 'spec \<Rightarrow> bool) \<Rightarrow> ('spec, 'p, 'a, 'r) SpecMultiMethod \<Rightarrow> 'spec \<Rightarrow> 'spec list" where
  "matching_specs satisfies self sp = filter (\<lambda>s. satisfies s sp) (map fst (method_map self))"

definition select_method ::
  "('spec \<Rightarrow> 'spec \<Rightarrow> bool) \<Rightarrow> ('spec \<Rightarrow> string)
     \<Rightarrow> ('spec, ('spec, 'z) package_scheme, 'a, 'r) SpecMultiMethod
     \<Rightarrow> ('spec, 'z) package_scheme
     \<Rightarrow> error + (('spec, 'z) package_scheme, 'a, 'r) pyfunction" where
  "select_method satisfies str self package_self =
     (let sp = spec package_self;
          matching = matching_specs satisfies self sp;
          num_matches = length matching
      in if num_matches = 0 then
           (case default_method self of
              None \<Rightarrow>
                (case getattr_name self of
                   Inl e \<Rightarrow> Inl e
                 | Inr n \<Rightarrow>
                     Inl (NoSuchMethodError
                            (no_such_method_message str (cls_name package_self) n sp
                               (map fst (method_map self)))))
            | Some d \<Rightarrow> Inr d)
         else if num_matches = 1 then
           (case map_of (method_map self) (matching ! 0) of
              None \<Rightarrow> Inl KeyError
            | Some m \<Rightarrow> Inr m)
         else
           (case getattr_name self of
              Inl e \<Rightarrow> Inl e
            | Inr n \<Rightarrow>
                Inl (AmbiguousMethodError
                       (ambiguous_method_message str (cls_name package_self) n sp matching))))"

text \<open>
  \<^verbatim>\<open>SpecMultiMethod.__call__(self, package_self, *args, **kwargs)\<close>: the last line,
  \<^verbatim>\<open>return method(package_self, *args, **kwargs)\<close>, is reached only when no exception was
  raised; the outcome of the chosen function is handed back as it is.
\<close>

definition call ::
  "('spec \<Rightarrow> 'spec \<Rightarrow> bool) \<Rightarrow> ('spec \<Rightarrow> string)
     \<Rightarrow> ('spec, ('spec, 'z) package_scheme, 'a, 'r) SpecMultiMethod
     \<Rightarrow> ('spec, 'z) package_scheme \<Rightarrow> 'a list \<Rightarrow> (string \<times> 'a) list \<Rightarrow> error + 'r" where
  "call satisfies str self package_self args kwargs =
     (case select_method satisfies str self package_self of
        Inl e \<Rightarrow> Inl e
      | Inr method \<Rightarrow> Inr (body method package_self args kwargs))"

text \<open>
  \<^verbatim>\<open>functools.partial(f, obj)\<close> is the pair of \<open>f\<close> and the bound first argument; calling it
  with further arguments calls \<open>f\<close> with the bound argument in front.
\<close>

record ('p, 'a, 'r) partial =
  func :: "'p \<Rightarrow> 'a list \<Rightarrow> (string \<times> 'a) list \<Rightarrow> 'r"
  bound :: 'p

definition partial_call :: "('p, 'a, 'r) partial \<Rightarrow> 'a list \<Rightarrow> (string \<times> 'a) list \<Rightarrow> 'r" where
  "partial_call p args kwargs = func p (bound p) args kwargs"

text \<open>\<^verbatim>\<open>SpecMultiMethod.__get__(self, obj, objtype)\<close>\<close>

definition get ::
  "('spec \<Rightarrow> 'spec \<Rightarrow> bool) \<Rightarrow> ('spec \<Rightarrow> string)
     \<Rightarrow> ('spec, ('spec, 'z) package_scheme, 'a, 'r) SpecMultiMethod
     \<Rightarrow> ('spec, 'z) package_scheme \<Rightarrow> 't
     \<Rightarrow> (('spec, 'z) package_scheme, 'a, error + 'r) partial" where
  "get satisfies str self obj objtype = \<lparr>func = call satisfies str self, bound = obj\<rparr>"

subsection \<open>The decorator\<close>

text \<open>
  Tables are mutable objects that several names may refer to, so they live in a heap: a
  list of tables, a reference being an index into it. A name of the class body under
  construction (\<^verbatim>\<open>caller_locals()\<close>, a helper of \<^verbatim>\<open>spack.util.lang\<close>) is bound to a
  plain function or to a reference to a table. A reference always refers to an object, so
  a reference \<open>r\<close> held by a scope is below the length of the heap and \<open>heap ! r\<close> is the
  table it refers to.
\<close>

datatype ('p, 'a, 'r) pyobject =
    Function "('p, 'a, 'r) pyfunction"
  | MultiMethod nat

type_synonym ('spec, 'p, 'a, 'r) heap = "('spec, 'p, 'a, 'r) SpecMultiMethod list"

type_synonym ('p, 'a, 'r) scope = "(string \<times> ('p, 'a, 'r) pyobject) list"

text \<open>
  \<^verbatim>\<open>when.__call__(self, method)\<close>, with \<^verbatim>\<open>self.spec\<close> (parsed by \<^verbatim>\<open>spack.spec\<close> when
  the decorator was built) as \<open>self_spec\<close>. The result is the reference returned, or the
  exception raised by \<^verbatim>\<open>register\<close>, and the heap as the call leaves it.
\<close>

definition when_call ::
  "'spec \<Rightarrow> ('p, 'a, 'r) pyfunction \<Rightarrow> ('p, 'a, 'r) scope \<Rightarrow> ('spec, 'p, 'a, 'r) heap
     \<Rightarrow> (error + nat) \<times> ('spec, 'p, 'a, 'r) heap" where
  "when_call self_spec method caller_locals heap =
     (let original_method = map_of caller_locals (method_name method);
          (r, heap1) =
            (case original_method of
               Some (MultiMethod r) \<Rightarrow> (r, heap)
             | Some (Function f) \<Rightarrow> (length heap, heap @ [SpecMultiMethod_init (Some f)])
             | None \<Rightarrow> (length heap, heap @ [SpecMultiMethod_init None]));
          (res, t) = register (heap1 ! r) self_spec method;
          heap2 = heap1[r := t]
      in case res of
           Inl e \<Rightarrow> (Inl e, heap2)
         | Inr _ \<Rightarrow> (Inr r, heap2))"

subsection \<open>Class bodies and method calls\<close>

text \<open>
  What Python itself does with the definitions of a class body: \<^verbatim>\<open>def f(...)\<close> binds the
  name of \<open>f\<close> to \<open>f\<close>; \<^verbatim>\<open>@when(s) def f(...)\<close> binds it to what the decorator returns, and
  an exception of the decorator ends the class body.
\<close>

datatype ('spec, 'p, 'a, 'r) stmt =
    Def "('p, 'a, 'r) pyfunction"
  | WhenDef 'spec "('p, 'a, 'r) pyfunction"

fun exec ::
  "('spec, 'p, 'a, 'r) stmt \<Rightarrow> ('p, 'a, 'r) scope \<times> ('spec, 'p, 'a, 'r) heap
     \<Rightarrow> error + (('p, 'a, 'r) scope \<times> ('spec, 'p, 'a, 'r) heap)" where
  "exec (Def f) (sc, h) = Inr (AList.update (method_name f) (Function f) sc, h)"
| "exec (WhenDef s m) (sc, h) =
     (case when_call s m sc h of
        (Inl e, h') \<Rightarrow> Inl e
      | (Inr r, h') \<Rightarrow> Inr (AList.update (method_name m) (MultiMethod r) sc, h'))"

fun exec_body ::
  "('spec, 'p, 'a, 'r) stmt list \<Rightarrow> ('p, 'a, 'r) scope \<times> ('spec, 'p, 'a, 'r) heap
     \<Rightarrow> error + (('p, 'a, 'r) scope \<times> ('spec, 'p, 'a, 'r) heap)" where
  "exec_body [] st = Inr st"
| "exec_body (x # xs) st =
     (case exec x st of
        Inl e \<Rightarrow> Inl e
      | Inr st' \<Rightarrow> exec_body xs st')"

text \<open>
  \<^verbatim>\<open>obj.name(*args, **kwargs)\<close> for a name of the class of \<open>obj\<close>: a plain function is
  called with \<open>obj\<close> in front; a table is asked for \<^verbatim>\<open>__get__(obj, type(obj))\<close> and what
  that returns is called with the arguments.
\<close>

definition getattr_call ::
  "('spec \<Rightarrow> 'spec \<Rightarrow> bool) \<Rightarrow> ('spec \<Rightarrow> string)
     \<Rightarrow> (('spec, 'z) package_scheme, 'a, 'r) scope
     \<Rightarrow> ('spec, ('spec, 'z) package_scheme, 'a, 'r) heap
     \<Rightarrow> string \<Rightarrow> ('spec, 'z) package_scheme \<Rightarrow> 'a list \<Rightarrow> (string \<times> 'a) list
     \<Rightarrow> error + 'r" where
  "getattr_call satisfies str sc h name obj args kwargs =
     (case map_of sc name of
        None \<Rightarrow> Inl (AttributeError name)
      | Some (Function f) \<Rightarrow> Inr (body f obj args kwargs)
      | Some (MultiMethod r) \<Rightarrow>
          partial_call (get satisfies str (h ! r) obj (cls_name obj)) args kwargs)"

subsection \<open>Invariant of the tables\<close>

text \<open>
  A dict has each key once. A table without \<^verbatim>\<open>__name__\<close> has never been given a default
  or an entry, since both \<^verbatim>\<open>__init__\<close> with a default and \<^verbatim>\<open>register\<close> set the name.
\<close>

definition table_inv :: "('spec, 'p, 'a, 'r) SpecMultiMethod \<Rightarrow> bool" where
  "table_inv t \<longleftrightarrow>
     distinct (map fst (method_map t)) \<and>
     (wrapper_name t = None \<longrightarrow> method_map t = [] \<and> default_method t = None)"

subsection \<open>A package with two constrained versions of install\<close>

text \<open>
  Concrete objects on which the theorems below are run: specs are strings, a constraint is
  satisfied by a spec that has all its characters, and \<^verbatim>\<open>str\<close> is the identity.
\<close>

definition contains :: "string \<Rightarrow> string \<Rightarrow> bool" where
  "contains c s \<longleftrightarrow> set c \<subseteq> set s"

type_synonym ex_function = "(string package, nat, nat) pyfunction"

definition install_default :: ex_function where
  "install_default = \<lparr>method_name = ''install'', body = (\<lambda>p args kwargs. 0)\<rparr>"

definition install_a :: ex_function where
  "install_a = \<lparr>method_name = ''install'', body = (\<lambda>p args kwargs. 1 + length args)\<rparr>"

definition install_b :: ex_function where
  "install_b = \<lparr>method_name = ''install'', body = (\<lambda>p args kwargs. 2 + length args)\<rparr>"

definition setup_a :: ex_function where
  "setup_a = \<lparr>method_name = ''setup'', body = (\<lambda>p args kwargs. 3)\<rparr>"

definition ex_table :: "(string, string package, nat, nat) SpecMultiMethod" where
  "ex_table =
     snd (register (snd (register (SpecMultiMethod_init (Some install_default)) ''a'' install_a))
            ''b'' install_b)"

definition ex_package :: "string \<Rightarrow> string package" where
  "ex_package s = \<lparr>cls_name = ''Mpileaks'', spec = s\<rparr>"

type_synonym ex_scope = "(string package, nat, nat) scope"

type_synonym ex_heap = "(string, string package, nat, nat) heap"

definition ex_scope_plain :: ex_scope where
  "ex_scope_plain = [(''install'', Function install_default)]"

definition ex_scope_table :: ex_scope where
  "ex_scope_table = [(''install'', MultiMethod 0)]"

definition ex_heap_default :: ex_heap where
  "ex_heap_default = [SpecMultiMethod_init (Some install_default)]"

definition ex_heap :: ex_heap where
  "ex_heap = [ex_table]"

definition ex_body :: "(string, string package, nat, nat) stmt list" where
  "ex_body = [Def install_default, WhenDef ''a'' install_a, WhenDef ''b'' install_b]"

text \<open>
  A second method with a table of its own, and scopes in which a definition is also bound
  under a name that is not its own (\<^verbatim>\<open>setup = install\<close> in the class body).
\<close>

definition install_c :: ex_function where
  "install_c = \<lparr>method_name = ''install'', body = (\<lambda>p args kwargs. 4 + length args)\<rparr>"

definition ex_setup_table :: "(string, string package, nat, nat) SpecMultiMethod" where
  "ex_setup_table = snd (register (SpecMultiMethod_init None) ''a'' setup_a)"

definition ex_scope_two :: ex_scope where
  "ex_scope_two = [(''install'', MultiMethod 0), (''setup'', MultiMethod 1)]"

definition ex_heap_two :: ex_heap where
  "ex_heap_two = [ex_table, ex_setup_table]"

definition ex_scope_alias_plain :: ex_scope where
  "ex_scope_alias_plain =
     [(''install'', Function install_default), (''setup'', Function install_default)]"

definition ex_scope_alias_table :: ex_scope where
  "ex_scope_alias_table = [(''install'', MultiMethod 0), (''setup'', MultiMethod 0)]"

section \<open>Auxiliary facts\<close>

subsection \<open>Lists and strings\<close>

lemma filter_unique:
  "distinct xs \<Longrightarrow> c \<in> set xs \<Longrightarrow> P c \<Longrightarrow> (\<forall>x\<in>set xs. P x \<longrightarrow> x = c) \<Longrightarrow> filter P xs = [c]"
proof (induction xs)
  case Nil
  then show ?case by simp
next
  case (Cons x xs)
  show ?case
  proof (cases "x = c")
    case True
    from Cons.prems(1) True have notin: "c \<notin> set xs" by simp
    have "\<forall>y\<in>set xs. \<not> P y"
    proof
      fix y assume y: "y \<in> set xs"
      show "\<not> P y"
      proof
        assume "P y"
        with Cons.prems(4) y have "y = c" by simp
        with y notin show False by simp
      qed
    qed
    then have "filter P xs = []" by (simp add: filter_empty_conv)
    with True Cons.prems(3) show ?thesis by simp
  next
    case False
    from Cons.prems(4) False have npx: "\<not> P x" by auto
    from False Cons.prems(2) have "c \<in> set xs" by auto
    moreover from Cons.prems(1) have "distinct xs" by simp
    moreover from Cons.prems(4) have "\<forall>y\<in>set xs. P y \<longrightarrow> y = c" by simp
    ultimately have "filter P xs = [c]"
      using Cons.prems(3) Cons.IH by blast
    with npx show ?thesis by simp
  qed
qed

lemma sublist_join: "x \<in> set xs \<Longrightarrow> sublist x (join sep xs)"
proof (induction sep xs rule: join.induct)
  case (1 sep)
  then show ?case by simp
next
  case (2 sep y)
  then show ?case by simp
next
  case (3 sep y z zs)
  show ?case
  proof (cases "x = y")
    case True
    then show ?thesis by simp
  next
    case False
    with 3 have "sublist x (join sep (z # zs))" by simp
    then have "sublist x ((y @ sep) @ join sep (z # zs))"
      unfolding sublist_append by blast
    then show ?thesis by simp
  qed
qed

lemma filter_two:
  assumes "c1 \<in> set xs" "c2 \<in> set xs" "c1 \<noteq> c2" "P c1" "P c2"
  shows "2 \<le> length (filter P xs)"
proof -
  from assms have "{c1, c2} \<subseteq> set (filter P xs)" by simp
  then have "card {c1, c2} \<le> card (set (filter P xs))"
    by (intro card_mono) auto
  also have "\<dots> \<le> length (filter P xs)" by (rule card_length)
  finally show ?thesis using assms(3) by simp
qed

subsection \<open>Tables\<close>

lemma table_inv_init: "table_inv (SpecMultiMethod_init d)"
  by (cases d) (simp_all add: table_inv_def SpecMultiMethod_init_def update_wrapper_def)

lemma method_map_register:
  "method_map (snd (register t c m)) = AList.update c m (method_map t)"
  by (simp add: register_def Let_def update_wrapper_def split: option.splits)

lemma default_method_register:
  "default_method (snd (register t c m)) = default_method t"
  by (simp add: register_def Let_def update_wrapper_def split: option.splits)

lemma wrapper_name_register:
  "wrapper_name (snd (register t c m)) =
     (case wrapper_name t of None \<Rightarrow> Some (method_name m) | Some n \<Rightarrow> Some n)"
  by (simp add: register_def Let_def update_wrapper_def split: option.splits)

lemma table_inv_register: "table_inv t \<Longrightarrow> table_inv (snd (register t c m))"
  unfolding table_inv_def method_map_register default_method_register wrapper_name_register
  by (simp add: distinct_update split: option.splits)

subsection \<open>Messages and the call without a match\<close>

lemma select_method_no_match:
  assumes "\<forall>c\<in>set (map fst (method_map self)). \<not> satisfies c (spec package_self)"
  shows "select_method satisfies str self package_self =
     (case default_method self of
        Some d \<Rightarrow> Inr d
      | None \<Rightarrow>
          (case wrapper_name self of
             None \<Rightarrow> Inl (AttributeError ''__name__'')
           | Some n \<Rightarrow>
               Inl (NoSuchMethodError
                      (no_such_method_message str (cls_name package_self) n (spec package_self)
                         (map fst (method_map self))))))"
proof -
  from assms have "matching_specs satisfies self (spec package_self) = []"
    by (simp add: matching_specs_def filter_empty_conv)
  then show ?thesis
    by (simp add: select_method_def getattr_name_def split: option.splits)
qed

lemma no_such_method_message_includes:
  "sublist cls (no_such_method_message str cls meth sp possible_specs)"
  "sublist meth (no_such_method_message str cls meth sp possible_specs)"
  "sublist (str sp) (no_such_method_message str cls meth sp possible_specs)"
  "c \<in> set possible_specs \<Longrightarrow> sublist (str c) (no_such_method_message str cls meth sp possible_specs)"
proof -
  let ?m = "no_such_method_message str cls meth sp possible_specs"
  have 1: "?m = ''Package '' @ cls @ ('' does not support '' @ meth @ '' called with '' @ str sp
       @ ''.  Options are: '' @ join '', '' (map str possible_specs))"
    by (simp add: no_such_method_message_def)
  show "sublist cls ?m" unfolding 1 by (rule sublist_appendI)
  have 2: "?m = (''Package '' @ cls @ '' does not support '') @ meth @ ('' called with '' @ str sp
       @ ''.  Options are: '' @ join '', '' (map str possible_specs))"
    by (simp add: no_such_method_message_def)
  show "sublist meth ?m" unfolding 2 by (rule sublist_appendI)
  have 3: "?m = (''Package '' @ cls @ '' does not support '' @ meth @ '' called with '') @ str sp
       @ (''.  Options are: '' @ join '', '' (map str possible_specs))"
    by (simp add: no_such_method_message_def)
  show "sublist (str sp) ?m" unfolding 3 by (rule sublist_appendI)
  have 4: "?m = (''Package '' @ cls @ '' does not support '' @ meth @ '' called with '' @ str sp
       @ ''.  Options are: '') @ join '', '' (map str possible_specs)"
    by (simp add: no_such_method_message_def)
  assume "c \<in> set possible_specs"
  then have "sublist (str c) (join '', '' (map str possible_specs))"
    by (intro sublist_join) simp
  then show "sublist (str c) ?m"
    unfolding 4 sublist_append by blast
qed

lemma ambiguous_method_message_includes:
  "sublist cls (ambiguous_method_message str cls meth sp matching)"
  "sublist meth (ambiguous_method_message str cls meth sp matching)"
  "sublist (str sp) (ambiguous_method_message str cls meth sp matching)"
  "c \<in> set matching \<Longrightarrow> sublist (str c) (ambiguous_method_message str cls meth sp matching)"
proof -
  let ?m = "ambiguous_method_message str cls meth sp matching"
  have 1: "?m = ''Package '' @ cls @ ('' has multiple versions of '' @ meth @ '' that match ''
       @ str sp @ '': '' @ join '','' (map str matching))"
    by (simp add: ambiguous_method_message_def)
  show "sublist cls ?m" unfolding 1 by (rule sublist_appendI)
  have 2: "?m = (''Package '' @ cls @ '' has multiple versions of '') @ meth @ ('' that match ''
       @ str sp @ '': '' @ join '','' (map str matching))"
    by (simp add: ambiguous_method_message_def)
  show "sublist meth ?m" unfolding 2 by (rule sublist_appendI)
  have 3: "?m = (''Package '' @ cls @ '' has multiple versions of '' @ meth @ '' that match '')
       @ str sp @ ('': '' @ join '','' (map str matching))"
    by (simp add: ambiguous_method_message_def)
  show "sublist (str sp) ?m" unfolding 3 by (rule sublist_appendI)
  have 4: "?m = (''Package '' @ cls @ '' has multiple versions of '' @ meth @ '' that match ''
       @ str sp @ '': '') @ join '','' (map str matching)"
    by (simp add: ambiguous_method_message_def)
  assume "c \<in> set matching"
  then have "sublist (str c) (join '','' (map str matching))"
    by (intro sublist_join) simp
  then show "sublist (str c) ?m"
    unfolding 4 sublist_append by blast
qed

lemma call_no_match_named:
  assumes "\<forall>c\<in>set (map fst (method_map self)). \<not> satisfies c (spec package_self)"
    and "wrapper_name self = Some n"
  shows "call satisfies str self package_self args kwargs =
     (case default_method self of
        Some d \<Rightarrow> Inr (body d package_self args kwargs)
      | None \<Rightarrow>
          Inl (NoSuchMethodError
                 (no_such_method_message str (cls_name package_self) n (spec package_self)
                    (map fst (method_map self)))))"
  using assms(2)
  by (simp add: call_def select_method_no_match [where satisfies = satisfies, OF assms(1)]
      split: option.splits)

subsection \<open>The decorator\<close>

lemma fst_register:
  "fst (register t c m) =
     (case wrapper_name t of
        None \<Rightarrow> Inr ()
      | Some n \<Rightarrow> if n = method_name m then Inr () else Inl AssertionError)"
  by (simp add: register_def Let_def split: option.splits)

lemma when_call_MultiMethod:
  assumes "map_of caller_locals (method_name method) = Some (MultiMethod r)"
  shows "when_call self_spec method caller_locals heap =
           (case fst (register (heap ! r) self_spec method) of
              Inl e \<Rightarrow> Inl e
            | Inr u \<Rightarrow> Inr r,
            heap[r := snd (register (heap ! r) self_spec method)])"
  using assms by (simp add: when_call_def split: prod.splits sum.splits)

lemma when_call_Function:
  assumes "map_of caller_locals (method_name method) = Some (Function f)"
  shows "when_call self_spec method caller_locals heap =
           (if method_name f = method_name method then Inr (length heap)
            else Inl AssertionError,
            heap @ [\<lparr>method_map = [(self_spec, method)], default_method = Some f,
                      wrapper_name = Some (method_name f)\<rparr>])"
  using assms
  by (simp add: when_call_def SpecMultiMethod_init_def update_wrapper_def register_def)

lemma when_call_None:
  assumes "map_of caller_locals (method_name method) = None"
  shows "when_call self_spec method caller_locals heap =
           (Inr (length heap),
            heap @ [\<lparr>method_map = [(self_spec, method)], default_method = None,
                      wrapper_name = Some (method_name method)\<rparr>])"
  using assms
  by (simp add: when_call_def SpecMultiMethod_init_def update_wrapper_def register_def)

subsection \<open>The example table\<close>

lemma ex_table_eq:
  "ex_table =
     \<lparr>method_map = [(''a'', install_a), (''b'', install_b)],
      default_method = Some install_default, wrapper_name = Some ''install''\<rparr>"
  by (simp add: ex_table_def register_def SpecMultiMethod_init_def update_wrapper_def
      install_default_def install_a_def install_b_def Let_def)

lemma ex_body_eq: "exec_body ex_body ([], []) = Inr (ex_scope_table, ex_heap)"
  by (simp add: ex_body_def when_call_def register_def SpecMultiMethod_init_def
      update_wrapper_def ex_table_eq ex_scope_table_def ex_heap_def install_default_def
      install_a_def install_b_def)

lemma ex_setup_table_eq:
  "ex_setup_table =
     \<lparr>method_map = [(''a'', setup_a)], default_method = None, wrapper_name = Some ''setup''\<rparr>"
  by (simp add: ex_setup_table_def register_def SpecMultiMethod_init_def update_wrapper_def
      setup_a_def Let_def)

section \<open>Dispatch\<close>

text \<open>
  C1. When the spec of the receiver satisfies exactly one key \<open>c\<close> of the table, the call
  chooses the function registered under \<open>c\<close> and returns the outcome of that function on
  the receiver, the positional arguments and the keyword arguments, unchanged.
\<close>

theorem call_unique_match:
  assumes "table_inv self"
    and "(c, m) \<in> set (method_map self)"
    and "satisfies c (spec package_self)"
    and "\<forall>c'\<in>set (map fst (method_map self)). satisfies c' (spec package_self) \<longrightarrow> c' = c"
  shows "select_method satisfies str self package_self = Inr m \<and>
         call satisfies str self package_self args kwargs = Inr (body m package_self args kwargs)"
proof -
  from assms(1) have d: "distinct (map fst (method_map self))"
    by (simp add: table_inv_def)
  from assms(2) have "c \<in> set (map fst (method_map self))"
    by force
  with d assms(3,4) have "matching_specs satisfies self (spec package_self) = [c]"
    unfolding matching_specs_def by (intro filter_unique)
  moreover from d assms(2) have "map_of (method_map self) c = Some m"
    by simp
  ultimately have "select_method satisfies str self package_self = Inr m"
    by (simp add: select_method_def)
  then show ?thesis by (simp add: call_def)
qed

theorem call_unique_match_witness:
  "table_inv ex_table \<and> (''a'', install_a) \<in> set (method_map ex_table) \<and>
   contains ''a'' (spec (ex_package ''ac'')) \<and>
   \<not> contains ''b'' (spec (ex_package ''ac'')) \<and>
   call contains id ex_table (ex_package ''ac'') [7, 8] [(''prefix'', 9)] = Inr 3"
proof -
  have h1: "table_inv ex_table"
    by (simp add: ex_table_eq table_inv_def)
  have h2: "(''a'', install_a) \<in> set (method_map ex_table)"
    by (simp add: ex_table_eq)
  have h3: "contains ''a'' (spec (ex_package ''ac''))"
    by (simp add: contains_def ex_package_def)
  have h4: "\<forall>c'\<in>set (map fst (method_map ex_table)).
              contains c' (spec (ex_package ''ac'')) \<longrightarrow> c' = ''a''"
    by (simp add: ex_table_eq contains_def ex_package_def)
  have h5: "\<not> contains ''b'' (spec (ex_package ''ac''))"
    by (simp add: contains_def ex_package_def)
  from call_unique_match [where satisfies = contains and package_self = "ex_package ''ac''"
      and str = id and args = "[7, 8]" and kwargs = "[(''prefix'', 9)]", OF h1 h2 h3 h4]
  have "call contains id ex_table (ex_package ''ac'') [7, 8] [(''prefix'', 9)] = Inr 3"
    by (simp add: install_a_def)
  with h1 h2 h3 h5 show ?thesis by blast
qed

text \<open>
  C2. With no key satisfied, the call runs the default when there is one, and otherwise
  raises \<^verbatim>\<open>NoSuchMethodError\<close> with the class name, the method name, the spec and all
  keys in its message: this is \<open>call_no_match_named\<close> with \<open>no_such_method_message_includes\<close>,
  for every table that has a \<^verbatim>\<open>__name__\<close>. A table built without a default and never
  registered to has none, and there the evaluation of \<^verbatim>\<open>self.__name__\<close> for the
  message raises \<^verbatim>\<open>AttributeError\<close> before \<^verbatim>\<open>NoSuchMethodError\<close> is built.
\<close>

theorem call_no_match_unnamed:
  "call contains id (SpecMultiMethod_init None) (ex_package ''a'') [] [] =
     (Inl (AttributeError ''__name__'') :: error + nat)"
  by (simp add: call_def select_method_def matching_specs_def getattr_name_def
      SpecMultiMethod_init_def)

text \<open>
  C3. When the spec of the receiver satisfies two different keys, the call raises
  \<^verbatim>\<open>AmbiguousMethodError\<close> and calls no function; the message is built from the class
  name, the method name, the spec and the list of the satisfied keys, and each of them
  occurs in it.
\<close>

theorem call_ambiguous:
  assumes "table_inv self"
    and "c1 \<in> set (map fst (method_map self))" and "c2 \<in> set (map fst (method_map self))"
    and "c1 \<noteq> c2"
    and "satisfies c1 (spec package_self)" and "satisfies c2 (spec package_self)"
  shows "\<exists>n msg.
           wrapper_name self = Some n \<and>
           msg = ambiguous_method_message str (cls_name package_self) n (spec package_self)
                   (matching_specs satisfies self (spec package_self)) \<and>
           select_method satisfies str self package_self = Inl (AmbiguousMethodError msg) \<and>
           call satisfies str self package_self args kwargs = Inl (AmbiguousMethodError msg) \<and>
           set (matching_specs satisfies self (spec package_self)) =
             {c \<in> set (map fst (method_map self)). satisfies c (spec package_self)} \<and>
           sublist (cls_name package_self) msg \<and> sublist n msg \<and>
           sublist (str (spec package_self)) msg \<and>
           (\<forall>c\<in>set (map fst (method_map self)).
              satisfies c (spec package_self) \<longrightarrow> sublist (str c) msg)"
proof -
  let ?ms = "matching_specs satisfies self (spec package_self)"
  from assms(2) have "method_map self \<noteq> []" by auto
  with assms(1) obtain n where n: "wrapper_name self = Some n"
    by (auto simp: table_inv_def)
  let ?msg = "ambiguous_method_message str (cls_name package_self) n (spec package_self) ?ms"
  from assms(2-6) have len: "2 \<le> length ?ms"
    unfolding matching_specs_def by (rule filter_two)
  then have "length ?ms \<noteq> 0" and "length ?ms \<noteq> 1"
    by linarith+
  with n have sel: "select_method satisfies str self package_self = Inl (AmbiguousMethodError ?msg)"
    by (simp add: select_method_def getattr_name_def Let_def)
  then have cl: "call satisfies str self package_self args kwargs = Inl (AmbiguousMethodError ?msg)"
    by (simp add: call_def)
  have st: "set ?ms = {c \<in> set (map fst (method_map self)). satisfies c (spec package_self)}"
    unfolding matching_specs_def by (rule set_filter)
  have "\<forall>c\<in>set (map fst (method_map self)).
          satisfies c (spec package_self) \<longrightarrow> sublist (str c) ?msg"
  proof (intro ballI impI)
    fix c assume "c \<in> set (map fst (method_map self))" "satisfies c (spec package_self)"
    then have "c \<in> set ?ms" unfolding st by simp
    then show "sublist (str c) ?msg" by (rule ambiguous_method_message_includes(4))
  qed
  with n sel cl st show ?thesis
    by (simp add: ambiguous_method_message_includes(1-3))
qed

theorem call_ambiguous_witness:
  "table_inv ex_table \<and> ''a'' \<in> set (map fst (method_map ex_table)) \<and>
   ''b'' \<in> set (map fst (method_map ex_table)) \<and> ''a'' \<noteq> ''b'' \<and>
   contains ''a'' (spec (ex_package ''ab'')) \<and> contains ''b'' (spec (ex_package ''ab'')) \<and>
   call contains id ex_table (ex_package ''ab'') [7] [] =
     Inl (AmbiguousMethodError
            ''Package Mpileaks has multiple versions of install that match ab: a,b'')"
proof -
  have h1: "table_inv ex_table"
    by (simp add: ex_table_eq table_inv_def)
  have h2: "''a'' \<in> set (map fst (method_map ex_table))"
    and h3: "''b'' \<in> set (map fst (method_map ex_table))"
    by (simp_all add: ex_table_eq)
  have h4: "''a'' \<noteq> ''b''" by simp
  have h5: "contains ''a'' (spec (ex_package ''ab''))"
    and h6: "contains ''b'' (spec (ex_package ''ab''))"
    by (simp_all add: contains_def ex_package_def)
  from call_ambiguous [where satisfies = contains and package_self = "ex_package ''ab''"
      and str = id and args = "[7]" and kwargs = "[]", OF h1 h2 h3 h4 h5 h6]
  have "call contains id ex_table (ex_package ''ab'') [7] [] =
     Inl (AmbiguousMethodError
            ''Package Mpileaks has multiple versions of install that match ab: a,b'')"
    by (auto simp: ex_table_eq ambiguous_method_message_def matching_specs_def contains_def
        ex_package_def)
  with h1 h2 h3 h4 h5 h6 show ?thesis by blast
qed

text \<open>
  C6. A table built with no default and no entries, called on any receiver with any
  arguments, raises \<^verbatim>\<open>AttributeError\<close> for its missing \<^verbatim>\<open>__name__\<close>, not
  \<^verbatim>\<open>NoSuchMethodError\<close>.
\<close>

theorem call_empty_table:
  "call satisfies str (SpecMultiMethod_init None) package_self args kwargs =
     Inl (AttributeError ''__name__'')"
  by (simp add: call_def select_method_def matching_specs_def getattr_name_def
      SpecMultiMethod_init_def)

text \<open>
  C8. Calling what \<^verbatim>\<open>__get__\<close> returns for an instance gives the outcome of calling the
  table with the instance as first argument, and so does a call \<^verbatim>\<open>obj.name(...)\<close> of a name
  that the class binds to a table.
\<close>

theorem get_is_bound_call:
  "partial_call (get satisfies str self obj objtype) args kwargs =
     call satisfies str self obj args kwargs \<and>
   (map_of sc name = Some (MultiMethod r) \<longrightarrow>
      getattr_call satisfies str sc h name obj args kwargs =
        call satisfies str (h ! r) obj args kwargs)"
  by (simp add: partial_call_def get_def getattr_call_def)

theorem get_is_bound_call_witness:
  "map_of ex_scope_table ''install'' = Some (MultiMethod 0) \<and>
   getattr_call contains id ex_scope_table ex_heap ''install'' (ex_package ''b'') [7] [] =
     call contains id (ex_heap ! 0) (ex_package ''b'') [7] [] \<and>
   getattr_call contains id ex_scope_table ex_heap ''install'' (ex_package ''b'') [7] [] = Inr 3"
proof -
  have h: "map_of ex_scope_table ''install'' = Some (MultiMethod 0)"
    by (simp add: ex_scope_table_def)
  have e: "getattr_call contains id ex_scope_table ex_heap ''install'' (ex_package ''b'') [7] [] =
     call contains id (ex_heap ! 0) (ex_package ''b'') [7] []"
    by (rule get_is_bound_call [where self = ex_table and objtype = "()", THEN conjunct2,
          THEN mp, OF h])
  have "call contains id (ex_heap ! 0) (ex_package ''b'') [7] [] = Inr 3"
    by (simp add: call_def select_method_def matching_specs_def ex_heap_def ex_table_eq
        contains_def ex_package_def install_b_def)
  with h e show ?thesis by simp
qed

section \<open>Registration\<close>

text \<open>
  C5. Registering a function whose name differs from the \<^verbatim>\<open>__name__\<close> of the table fails
  in \<^verbatim>\<open>register\<close> itself with \<^verbatim>\<open>AssertionError\<close>; registering into a table without a
  \<^verbatim>\<open>__name__\<close> succeeds and gives the table the name of the function; registering a
  function of the same name succeeds.
\<close>

theorem register_name_check:
  "(wrapper_name self = Some n \<and> n \<noteq> method_name method \<longrightarrow>
      fst (register self sp method) = Inl AssertionError) \<and>
   (wrapper_name self = None \<longrightarrow>
      fst (register self sp method) = Inr () \<and>
      wrapper_name (snd (register self sp method)) = Some (method_name method)) \<and>
   (wrapper_name self = Some (method_name method) \<longrightarrow>
      fst (register self sp method) = Inr () \<and>
      wrapper_name (snd (register self sp method)) = Some (method_name method))"
  by (simp add: register_def Let_def update_wrapper_def)

theorem register_name_check_witness:
  "wrapper_name ex_table = Some ''install'' \<and> ''install'' \<noteq> method_name setup_a \<and>
   fst (register ex_table ''c'' setup_a) = Inl AssertionError \<and>
   wrapper_name (SpecMultiMethod_init None :: (string, string package, nat, nat) SpecMultiMethod) = None \<and>
   fst (register (SpecMultiMethod_init None) ''c'' setup_a) = Inr () \<and>
   wrapper_name (snd (register (SpecMultiMethod_init None) ''c'' setup_a)) = Some ''setup'' \<and>
   wrapper_name ex_table = Some (method_name install_a) \<and>
   fst (register ex_table ''c'' install_a) = Inr ()"
proof -
  have h1: "wrapper_name ex_table = Some ''install''"
    by (simp add: ex_table_eq)
  have h2: "''install'' \<noteq> method_name setup_a"
    by (simp add: setup_a_def)
  have h3: "wrapper_name (SpecMultiMethod_init None :: (string, string package, nat, nat) SpecMultiMethod) = None"
    by (simp add: SpecMultiMethod_init_def)
  have h4: "wrapper_name ex_table = Some (method_name install_a)"
    by (simp add: ex_table_eq install_a_def)
  have h5: "method_name setup_a = ''setup''"
    by (simp add: setup_a_def)
  from h1 h2 register_name_check [of ex_table "''install''" setup_a "''c''"]
  have c1: "fst (register ex_table ''c'' setup_a) = Inl AssertionError"
    by blast
  from h3 register_name_check [of "SpecMultiMethod_init None" _ setup_a "''c''"]
  have c2: "fst (register (SpecMultiMethod_init None) ''c'' setup_a) = Inr () \<and>
            wrapper_name (snd (register (SpecMultiMethod_init None) ''c'' setup_a)) = Some (method_name setup_a)"
    by blast
  from h4 register_name_check [of ex_table _ install_a "''c''"]
  have c3: "fst (register ex_table ''c'' install_a) = Inr ()"
    by blast
  from h1 h2 h3 h4 c1 c2 c3 show ?thesis unfolding h5 by blast
qed

text \<open>
  C7. Registering under a key that is already present replaces the function of that key:
  the key now maps to the new function, every other key maps to what it did, the keys and
  their order are the same, and the default is the same.
\<close>

theorem register_replaces:
  assumes "map_of (method_map self) sp = Some old"
  shows "map_of (method_map (snd (register self sp method))) sp = Some method \<and>
         (\<forall>sp'. sp' \<noteq> sp \<longrightarrow>
            map_of (method_map (snd (register self sp method))) sp' = map_of (method_map self) sp') \<and>
         map fst (method_map (snd (register self sp method))) = map fst (method_map self) \<and>
         default_method (snd (register self sp method)) = default_method self"
proof -
  from assms have "sp \<in> set (map fst (method_map self))"
    by (auto dest: map_of_SomeD intro: rev_image_eqI)
  then have "map fst (AList.update sp method (method_map self)) = map fst (method_map self)"
    by (simp add: update_keys)
  then show ?thesis
    by (simp add: method_map_register default_method_register update_conv')
qed

theorem register_replaces_witness:
  "map_of (method_map ex_table) ''a'' = Some install_a \<and>
   map_of (method_map (snd (register ex_table ''a'' install_b))) ''a'' = Some install_b \<and>
   map_of (method_map (snd (register ex_table ''a'' install_b))) ''b'' = Some install_b \<and>
   map fst (method_map (snd (register ex_table ''a'' install_b))) = [''a'', ''b''] \<and>
   default_method (snd (register ex_table ''a'' install_b)) = Some install_default"
proof -
  have h: "map_of (method_map ex_table) ''a'' = Some install_a"
    by (simp add: ex_table_eq)
  from register_replaces [OF h, of install_b] h show ?thesis
    by (simp add: ex_table_eq)
qed

section \<open>The decorator\<close>

text \<open>
  C4, as stated, fails where the name of the decorated function is bound to a plain
  function that carries another name (\<^verbatim>\<open>setup = install\<close>, then \<^verbatim>\<open>@when('a') def setup\<close>):
  the new table takes the name of its default, and \<^verbatim>\<open>register\<close> raises
  \<^verbatim>\<open>AssertionError\<close>, so no table is returned.
\<close>

theorem when_call_new_table_alias_counterexample:
  "map_of ex_scope_alias_plain (method_name setup_a) = Some (Function install_default) \<and>
   fst (when_call ''a'' setup_a ex_scope_alias_plain ([] :: ex_heap)) = Inl AssertionError"
  by (simp add: ex_scope_alias_plain_def setup_a_def install_default_def
      when_call_def register_def SpecMultiMethod_init_def update_wrapper_def)

text \<open>
  C4, amended. When the name of the decorated function is not bound to a table, the
  decorator allocates a new table whose default is the function bound to the name before
  (no default when the name was unbound) and whose only entry is the pair of the
  decorator's spec and the decorated function. It returns the new table, to which the name
  is then bound, when the name was unbound or the function bound to it carries the name of
  the decorated function; otherwise it raises \<^verbatim>\<open>AssertionError\<close>.
\<close>

theorem when_call_new_table:
  assumes "\<forall>r. map_of caller_locals (method_name method) \<noteq> Some (MultiMethod r)"
  shows "\<exists>d t res.
           d = (case map_of caller_locals (method_name method) of
                  Some (Function f) \<Rightarrow> Some f
                | _ \<Rightarrow> None) \<and>
           t = \<lparr>method_map = [(self_spec, method)], default_method = d,
                wrapper_name =
                  Some (case d of None \<Rightarrow> method_name method | Some f \<Rightarrow> method_name f)\<rparr> \<and>
           res = (case d of
                    None \<Rightarrow> Inr (length heap)
                  | Some f \<Rightarrow>
                      if method_name f = method_name method then Inr (length heap)
                      else Inl AssertionError) \<and>
           when_call self_spec method caller_locals heap = (res, heap @ [t]) \<and>
           (heap @ [t]) ! length heap = t \<and>
           (res = Inr (length heap) \<longrightarrow>
              exec (WhenDef self_spec method) (caller_locals, heap) =
                Inr (AList.update (method_name method) (MultiMethod (length heap)) caller_locals,
                     heap @ [t]) \<and>
              map_of (AList.update (method_name method) (MultiMethod (length heap)) caller_locals)
                (method_name method) = Some (MultiMethod (length heap)))"
proof (cases "map_of caller_locals (method_name method)")
  case None
  then show ?thesis
    by (simp add: when_call_None update_conv')
next
  case (Some d)
  with assms obtain f where d: "d = Function f"
    by (cases d) auto
  with Some show ?thesis
    by (simp add: when_call_Function update_conv')
qed

theorem when_call_new_table_witness:
  "when_call ''a'' install_a ex_scope_plain [] =
     (Inr 0, [\<lparr>method_map = [(''a'', install_a)], default_method = Some install_default,
                wrapper_name = Some ''install''\<rparr>]) \<and>
   when_call ''a'' setup_a [] ex_heap =
     (Inr 1, [ex_table, \<lparr>method_map = [(''a'', setup_a)], default_method = None,
                wrapper_name = Some ''setup''\<rparr>]) \<and>
   when_call ''a'' setup_a ex_scope_alias_plain ex_heap =
     (Inl AssertionError,
      [ex_table, \<lparr>method_map = [(''a'', setup_a)], default_method = Some install_default,
                wrapper_name = Some ''install''\<rparr>])"
proof -
  have h2: "\<forall>r. map_of ex_scope_plain (method_name install_a) \<noteq> Some (MultiMethod r)"
    by (simp add: ex_scope_plain_def install_a_def)
  have h4: "\<forall>r. map_of ([] :: ex_scope) (method_name setup_a) \<noteq> Some (MultiMethod r)"
    by simp
  have h6: "\<forall>r. map_of ex_scope_alias_plain (method_name setup_a) \<noteq> Some (MultiMethod r)"
    by (simp add: ex_scope_alias_plain_def setup_a_def)
  from when_call_new_table [OF h2, of "''a''" "[]"]
  have c1: "when_call ''a'' install_a ex_scope_plain [] =
     (Inr 0, [\<lparr>method_map = [(''a'', install_a)], default_method = Some install_default,
                wrapper_name = Some ''install''\<rparr>])"
    by (simp add: ex_scope_plain_def install_a_def install_default_def)
  from when_call_new_table [OF h4, of "''a''" ex_heap]
  have c2: "when_call ''a'' setup_a [] ex_heap =
     (Inr 1, [ex_table, \<lparr>method_map = [(''a'', setup_a)], default_method = None,
                wrapper_name = Some ''setup''\<rparr>])"
    by (simp add: setup_a_def ex_heap_def)
  from when_call_new_table [OF h6, of "''a''" ex_heap]
  have c3: "when_call ''a'' setup_a ex_scope_alias_plain ex_heap =
     (Inl AssertionError,
      [ex_table, \<lparr>method_map = [(''a'', setup_a)], default_method = Some install_default,
                wrapper_name = Some ''install''\<rparr>])"
    by (simp add: ex_scope_alias_plain_def setup_a_def install_default_def ex_heap_def)
  from c1 c2 c3 show ?thesis by blast
qed

text \<open>
  C10, as stated, fails where the name of the decorated function is bound to a table that
  carries another name (\<^verbatim>\<open>setup = install\<close> with \<^verbatim>\<open>install\<close> a table, then
  \<^verbatim>\<open>@when('c') def setup\<close>): \<^verbatim>\<open>register\<close> raises \<^verbatim>\<open>AssertionError\<close> and the decorator
  returns nothing.
\<close>

theorem when_call_same_table_alias_counterexample:
  "map_of ex_scope_alias_table (method_name setup_a) = Some (MultiMethod 0) \<and>
   fst (when_call ''c'' setup_a ex_scope_alias_table ex_heap) = Inl AssertionError"
  by (simp add: ex_scope_alias_table_def setup_a_def ex_heap_def ex_table_eq
      when_call_def register_def)

text \<open>
  C10, amended. When the name of the decorated function is bound to a table, the decorator
  allocates nothing and touches no other table; in the table itself the default and the
  functions of all other keys are the same, the keys are the old ones with the decorator's
  spec added when it was not among them, and the decorator's spec maps to the decorated
  function. The decorator returns that very table when the table carries the name of the
  decorated function or no name yet (which it then takes); otherwise it raises
  \<^verbatim>\<open>AssertionError\<close>.
\<close>

theorem when_call_same_table:
  assumes "map_of caller_locals (method_name method) = Some (MultiMethod r)"
    and "r < length heap"
  shows "\<exists>res heap'.
           when_call self_spec method caller_locals heap = (res, heap') \<and>
           res = (if wrapper_name (heap ! r) = None \<or>
                     wrapper_name (heap ! r) = Some (method_name method)
                  then Inr r else Inl AssertionError) \<and>
           length heap' = length heap \<and>
           (\<forall>r'<length heap. r' \<noteq> r \<longrightarrow> heap' ! r' = heap ! r') \<and>
           default_method (heap' ! r) = default_method (heap ! r) \<and>
           wrapper_name (heap' ! r) =
             (case wrapper_name (heap ! r) of
                None \<Rightarrow> Some (method_name method)
              | Some n \<Rightarrow> Some n) \<and>
           map_of (method_map (heap' ! r)) self_spec = Some method \<and>
           (\<forall>sp. sp \<noteq> self_spec \<longrightarrow>
              map_of (method_map (heap' ! r)) sp = map_of (method_map (heap ! r)) sp) \<and>
           map fst (method_map (heap' ! r)) =
             (if self_spec \<in> set (map fst (method_map (heap ! r)))
              then map fst (method_map (heap ! r))
              else map fst (method_map (heap ! r)) @ [self_spec]) \<and>
           (res = Inr r \<longrightarrow>
              exec (WhenDef self_spec method) (caller_locals, heap) =
                Inr (AList.update (method_name method) (MultiMethod r) caller_locals, heap'))"
proof -
  let ?t = "snd (register (heap ! r) self_spec method)"
  let ?res = "case fst (register (heap ! r) self_spec method) of
                Inl e \<Rightarrow> Inl e | Inr u \<Rightarrow> Inr r"
  have w: "when_call self_spec method caller_locals heap = (?res, heap[r := ?t])"
    using assms(1) by (rule when_call_MultiMethod)
  have res: "?res = (if wrapper_name (heap ! r) = None \<or>
                     wrapper_name (heap ! r) = Some (method_name method)
                  then Inr r else Inl AssertionError)"
    by (auto simp: fst_register split: option.splits)
  have nth: "(heap[r := ?t]) ! r = ?t" using assms(2) by simp
  have keys: "map fst (method_map ?t) =
             (if self_spec \<in> set (map fst (method_map (heap ! r)))
              then map fst (method_map (heap ! r))
              else map fst (method_map (heap ! r)) @ [self_spec])"
    unfolding method_map_register by (rule update_keys)
  have ex: "?res = Inr r \<longrightarrow>
              exec (WhenDef self_spec method) (caller_locals, heap) =
                Inr (AList.update (method_name method) (MultiMethod r) caller_locals,
                     heap[r := ?t])"
    by (simp add: w)
  show ?thesis
    apply (intro exI [of _ ?res] exI [of _ "heap[r := ?t]"] conjI)
    subgoal by (rule w)
    subgoal by (rule res)
    subgoal by simp
    subgoal by simp
    subgoal unfolding nth by (rule default_method_register)
    subgoal unfolding nth by (rule wrapper_name_register)
    subgoal unfolding nth method_map_register by (simp add: update_conv')
    subgoal unfolding nth method_map_register by (simp add: update_conv')
    subgoal unfolding nth by (rule keys)
    subgoal by (rule ex)
    done
qed

theorem when_call_same_table_witness:
  "map_of ex_scope_two (method_name install_c) = Some (MultiMethod 0) \<and>
   0 < length ex_heap_two \<and>
   when_call ''c'' install_c ex_scope_two ex_heap_two =
     (Inr 0,
      [\<lparr>method_map = [(''a'', install_a), (''b'', install_b), (''c'', install_c)],
         default_method = Some install_default, wrapper_name = Some ''install''\<rparr>,
       ex_setup_table]) \<and>
   map_of ex_scope_alias_table (method_name setup_a) = Some (MultiMethod 0) \<and>
   0 < length ex_heap \<and>
   when_call ''c'' setup_a ex_scope_alias_table ex_heap =
     (Inl AssertionError,
      [\<lparr>method_map = [(''a'', install_a), (''b'', install_b), (''c'', setup_a)],
         default_method = Some install_default, wrapper_name = Some ''install''\<rparr>])"
proof -
  have h1: "map_of ex_scope_two (method_name install_c) = Some (MultiMethod 0)"
    by (simp add: ex_scope_two_def install_c_def)
  have h2: "0 < length ex_heap_two"
    by (simp add: ex_heap_two_def)
  have h3: "map_of ex_scope_alias_table (method_name setup_a) = Some (MultiMethod 0)"
    by (simp add: ex_scope_alias_table_def setup_a_def)
  have h4: "0 < length ex_heap"
    by (simp add: ex_heap_def)
  from when_call_same_table [OF h1 h2, of "''c''"]
  obtain heap1 where w1: "when_call ''c'' install_c ex_scope_two ex_heap_two = (Inr 0, heap1)"
    by (auto simp: ex_heap_two_def ex_table_eq install_c_def)
  have "snd (when_call ''c'' install_c ex_scope_two ex_heap_two) =
      [\<lparr>method_map = [(''a'', install_a), (''b'', install_b), (''c'', install_c)],
         default_method = Some install_default, wrapper_name = Some ''install''\<rparr>,
       ex_setup_table]"
    by (simp add: when_call_def register_def ex_scope_two_def ex_heap_two_def ex_table_eq
        install_c_def)
  with w1 have c1: "when_call ''c'' install_c ex_scope_two ex_heap_two =
     (Inr 0,
      [\<lparr>method_map = [(''a'', install_a), (''b'', install_b), (''c'', install_c)],
         default_method = Some install_default, wrapper_name = Some ''install''\<rparr>,
       ex_setup_table])"
    by simp
  from when_call_same_table [OF h3 h4, of "''c''"]
  obtain heap2 where w2: "when_call ''c'' setup_a ex_scope_alias_table ex_heap =
      (Inl AssertionError, heap2)"
    by (auto simp: ex_heap_def ex_table_eq setup_a_def)
  have "snd (when_call ''c'' setup_a ex_scope_alias_table ex_heap) =
      [\<lparr>method_map = [(''a'', install_a), (''b'', install_b), (''c'', setup_a)],
         default_method = Some install_default, wrapper_name = Some ''install''\<rparr>]"
    by (simp add: when_call_def register_def ex_scope_alias_table_def ex_heap_def ex_table_eq
        setup_a_def)
  with w2 have c2: "when_call ''c'' setup_a ex_scope_alias_table ex_heap =
     (Inl AssertionError,
      [\<lparr>method_map = [(''a'', install_a), (''b'', install_b), (''c'', setup_a)],
         default_method = Some install_default, wrapper_name = Some ''install''\<rparr>])"
    by simp
  from h1 h2 h3 h4 c1 c2 show ?thesis by blast
qed

section \<open>The decorator and class bodies\<close>

text \<open>
  C9. A plain definition processed when its name is bound to a table rebinds the name to
  the plain function: the table and its entries are no longer reached through the name,
  and calling the name on any receiver, whatever its spec, runs the plain function.
\<close>

theorem def_replaces_table:
  assumes "map_of sc (method_name f) = Some (MultiMethod r)"
  shows "\<exists>sc'. exec (Def f) (sc, h) = Inr (sc', h) \<and>
           map_of sc' (method_name f) = Some (Function f) \<and>
           (\<forall>n. n \<noteq> method_name f \<longrightarrow> map_of sc' n = map_of sc n) \<and>
           (\<forall>obj args kwargs.
              getattr_call satisfies str sc' h (method_name f) obj args kwargs =
                Inr (body f obj args kwargs))"
  by (simp add: update_conv' getattr_call_def)

theorem def_replaces_table_witness:
  "exec_body ex_body ([], []) = Inr (ex_scope_table, ex_heap) \<and>
   map_of ex_scope_table (method_name install_default) = Some (MultiMethod 0) \<and>
   exec_body (ex_body @ [Def install_default]) ([], []) = Inr (ex_scope_plain, ex_heap) \<and>
   (\<forall>s args kwargs.
      getattr_call contains id ex_scope_plain ex_heap ''install'' (ex_package s) args kwargs =
        Inr 0)"
proof -
  have n: "method_name install_default = ''install''"
    and b: "\<And>obj args kwargs. body install_default obj args kwargs = 0"
    by (simp_all add: install_default_def)
  have h: "map_of ex_scope_table (method_name install_default) = Some (MultiMethod 0)"
    by (simp add: ex_scope_table_def n)
  from def_replaces_table [OF h, of ex_heap contains id]
  have c: "\<forall>obj args kwargs.
      getattr_call contains id ex_scope_plain ex_heap ''install'' obj args kwargs =
        Inr (body install_default obj args kwargs)"
    by (simp add: n ex_scope_table_def ex_scope_plain_def)
  then have c': "\<forall>s args kwargs.
      getattr_call contains id ex_scope_plain ex_heap ''install'' (ex_package s) args kwargs =
        Inr 0"
    by (simp add: b)
  have e: "exec_body (ex_body @ [Def install_default]) ([], []) = Inr (ex_scope_plain, ex_heap)"
    by (simp add: ex_body_def when_call_def register_def SpecMultiMethod_init_def
      update_wrapper_def ex_table_eq ex_heap_def ex_scope_plain_def install_default_def
      install_a_def install_b_def)
  from c' h e ex_body_eq show ?thesis by blast
qed

end
